theory Spec2Isabelle
  imports Main
begin

section \<open>Multimodal placeholder tokens (multimodal\_tokens.py)\<close>

text \<open>
  The module constants and the three dataclasses. A dataclass constructor takes each
  field as an optional keyword argument; an argument that is not given (\<open>None\<close> here)
  takes the default of the class. \<open>encoder_fn\<close> is \<open>Optional[Callable]\<close>: the
  callable is kept abstract.
\<close>

definition IGNORE_INDEX :: int where
  "IGNORE_INDEX = -100"

definition IMAGE_TOKEN_INDEX :: int where
  "IMAGE_TOKEN_INDEX = -200"

definition VIDEO_TOKEN_INDEX :: int where
  "VIDEO_TOKEN_INDEX = -300"

record 'f MultiModalToken =
  token_str :: string
  token_index :: int
  media_type :: string
  use_start_end :: bool
  encoder_fn :: "'f option"

definition arg_or_default :: "'a option \<Rightarrow> 'a \<Rightarrow> 'a" where
  "arg_or_default arg dflt = (case arg of None \<Rightarrow> dflt | Some v \<Rightarrow> v)"

definition ImageToken ::
  "string option \<Rightarrow> int option \<Rightarrow> string option \<Rightarrow> bool option \<Rightarrow> 'f option
   \<Rightarrow> 'f MultiModalToken" where
  "ImageToken ts ti mt use ef =
     \<lparr> token_str = arg_or_default ts ''<image>'',
       token_index = arg_or_default ti (-200),
       media_type = arg_or_default mt ''image'',
       use_start_end = arg_or_default use False,
       encoder_fn = ef \<rparr>"

definition VideoToken ::
  "string option \<Rightarrow> int option \<Rightarrow> string option \<Rightarrow> bool option \<Rightarrow> 'f option
   \<Rightarrow> 'f MultiModalToken" where
  "VideoToken ts ti mt use ef =
     \<lparr> token_str = arg_or_default ts ''<video>'',
       token_index = arg_or_default ti (-300),
       media_type = arg_or_default mt ''video'',
       use_start_end = arg_or_default use False,
       encoder_fn = ef \<rparr>"

section \<open>Exceptions and tensors\<close>

text \<open>
  The Python exceptions that the statements of this code can raise. \<open>ValueError\<close>
  carries the message of the raise statement (without the interpolated type name), so
  that the raise sites can be told apart.

  Calls into the framework (linear layers, adapter modules, base-class methods) are
  functions of their arguments. The failures that are modelled are those of this code's
  own statements: \<open>raise\<close> and \<open>assert\<close>, the access to an attribute that is absent or
  to an attribute of \<open>None\<close>, tuple unpacking, integer division, the assignment of a
  class of another object layout, and the shape checks of the tensor operations it calls.
\<close>

datatype py_error =
    ValueError string
  | AttributeError
  | AssertionError
  | RuntimeError
  | IndexError
  | ZeroDivisionError
  | NotImplementedError
  | TypeError

definition bind_err :: "py_error + 'a \<Rightarrow> ('a \<Rightarrow> py_error + 'b) \<Rightarrow> py_error + 'b" where
  "bind_err r f = (case r of Inl e \<Rightarrow> Inl e | Inr v \<Rightarrow> f v)"

text \<open>
  A tensor is its shape and its elements in row-major order (the logical order of a
  \<open>torch.Tensor\<close>, whatever its strides). The element type is abstract.
\<close>

record 'a tensor =
  shape :: "nat list"
  data :: "'a list"

definition numel :: "'a tensor \<Rightarrow> nat" where
  "numel t = prod_list (shape t)"

text \<open>\<open>t.size(i)\<close> for a non-negative \<open>i\<close>.\<close>

definition size_at :: "'a tensor \<Rightarrow> nat \<Rightarrow> py_error + nat" where
  "size_at t i = (if i < length (shape t) then Inr (shape t ! i) else Inl IndexError)"

text \<open>\<open>t.view(*sh)\<close> with every size given: the number of elements must agree.\<close>

definition view :: "'a tensor \<Rightarrow> nat list \<Rightarrow> py_error + 'a tensor" where
  "view t sh = (if prod_list sh = numel t then Inr (t\<lparr>shape := sh\<rparr>) else Inl RuntimeError)"

text \<open>
  \<open>t.reshape(*sh)\<close>, where \<open>None\<close> stands for a size \<open>-1\<close> that is to be inferred. At most
  one size may be inferred; it is the number of elements divided by the product of the
  given sizes, which must be positive and divide it.
\<close>

definition known_sizes :: "nat option list \<Rightarrow> nat" where
  "known_sizes sh = prod_list (map (\<lambda>d. case d of None \<Rightarrow> 1 | Some n \<Rightarrow> n) sh)"

definition reshape :: "'a tensor \<Rightarrow> nat option list \<Rightarrow> py_error + 'a tensor" where
  "reshape t sh =
     (let known = known_sizes sh;
          inferred = length (filter (\<lambda>d. d = None) sh)
      in if inferred = 0 then
           (if known = numel t then Inr (t\<lparr>shape := map the sh\<rparr>) else Inl RuntimeError)
         else if inferred = 1 then
           (if known = 0 \<or> numel t mod known \<noteq> 0 then Inl RuntimeError
            else Inr (t\<lparr>shape :=
                   map (\<lambda>d. case d of None \<Rightarrow> numel t div known | Some n \<Rightarrow> n) sh\<rparr>))
         else Inl RuntimeError)"

text \<open>
  \<open>torch.split(t, sizes, dim)\<close> with a list of sizes: the sizes must add up to the size
  of \<open>t\<close> along \<open>dim\<close>. The piece that starts at offset \<open>off\<close> and has size \<open>n\<close> keeps, of
  each of the \<open>outer\<close> blocks of \<open>width * inner\<close> elements, the \<open>n * inner\<close> elements
  from position \<open>off * inner\<close> on.
\<close>

definition split_piece :: "'a tensor \<Rightarrow> nat \<Rightarrow> nat \<Rightarrow> nat \<Rightarrow> 'a tensor" where
  "split_piece t d off n =
     (let sh = shape t;
          outer = prod_list (take d sh);
          width = sh ! d;
          inner = prod_list (drop (Suc d) sh)
      in \<lparr> shape = sh[d := n],
           data = concat (map (\<lambda>b. take (n * inner) (drop ((b * width + off) * inner) (data t)))
                            [0..<outer]) \<rparr>)"

fun split_pieces :: "'a tensor \<Rightarrow> nat \<Rightarrow> nat \<Rightarrow> nat list \<Rightarrow> 'a tensor list" where
  "split_pieces t d off [] = []"
| "split_pieces t d off (n # ns) = split_piece t d off n # split_pieces t d (off + n) ns"

definition torch_split :: "'a tensor \<Rightarrow> nat list \<Rightarrow> nat \<Rightarrow> py_error + 'a tensor list" where
  "torch_split t sizes d =
     (if d \<ge> length (shape t) then Inl IndexError
      else if sum_list sizes \<noteq> shape t ! d then Inl RuntimeError
      else Inr (split_pieces t d 0 sizes))"

text \<open>
  \<open>t[v:, :, :]\<close> for a Python integer \<open>v\<close>, on a tensor of at least three dimensions:
  a negative start counts from the end, and the start is clipped to the number of rows.
\<close>

definition slice_from :: "'a tensor \<Rightarrow> int \<Rightarrow> py_error + 'a tensor" where
  "slice_from t v =
     (case shape t of
        rows # rest \<Rightarrow>
          (if length rest < 2 then Inl IndexError
           else let start = (if v < 0 then nat (max (int rows + v) 0) else min (nat v) rows)
                in Inr \<lparr> shape = (rows - start) # rest,
                         data = drop (start * prod_list rest) (data t) \<rparr>)
      | [] \<Rightarrow> Inl IndexError)"

text \<open>
  \<open>torch.concat([a, b], dim=0)\<close>: the tensors agree in every size but the first; a
  one-dimensional empty tensor is skipped.
\<close>

definition concat_dim0 :: "'a tensor \<Rightarrow> 'a tensor \<Rightarrow> py_error + 'a tensor" where
  "concat_dim0 a b =
     (if shape a = [0] then Inr b
      else if shape b = [0] then Inr a
      else if shape a = [] \<or> shape b = [] \<or> tl (shape a) \<noteq> tl (shape b) then Inl RuntimeError
      else Inr \<lparr> shape = (hd (shape a) + hd (shape b)) # tl (shape a),
                 data = data a @ data b \<rparr>)"

text \<open>
  The operations of the tensor library whose result depends on the element type:
  \<open>a + b\<close> (with its broadcasting) and \<open>a.to(b.dtype)\<close>.
\<close>

record 'a torch =
  tensor_add :: "'a tensor \<Rightarrow> 'a tensor \<Rightarrow> 'a tensor"
  to_dtype_of :: "'a tensor \<Rightarrow> 'a tensor \<Rightarrow> 'a tensor"

section \<open>Modules and the class swap (mcore\_mixins.py)\<close>

text \<open>
  The classes a module can point to: the framework's classes and the mixins of this
  file. The accepted adapter types are the \<open>_target_\<close> strings of the adapter
  configurations; each is named after the configuration it is read from.
\<close>

datatype mcore_mixin =
    MCoreAdapterModuleMixin
  | MCoreSelfAttentionMixin
  | MCoreMLPMixin
  | MCoreGPTEmbeddingMixin
  | MCoreTransformerLayerMixin

datatype py_class =
    SelfAttention
  | MLP
  | LanguageModelEmbedding
  | TransformerLayer
  | Mixin mcore_mixin

datatype adapter_target =
    LoraKQVAdapterConfig_target
  | InfusedAdapterConfig_target
  | MLPInfusedAdapterConfig_target
  | PromptEncoderAdapterConfig_target
  | ParallelLinearAdapterConfig_target

datatype AdapterName =
    LORA_KQV_ADAPTER
  | KEY_INFUSED
  | VALUE_INFUSED
  | MLP_INFUSED
  | PTUNING_ADAPTER
  | PRE_ATTN_ADAPTER
  | POST_ATTN_ADAPTER

datatype linear_kind =
    TELayerNormColumnParallelLinear
  | TEColumnParallelLinear
  | OtherLinear

text \<open>
  The \<open>linear_qkv\<close> submodule: its class, its \<open>return_layernorm_output\<close> flag, and what a
  call computes. As the comments of \<open>get_query_key_value_tensors\<close> say, a
  \<open>TELayerNormColumnParallelLinear\<close> returns both the projection and the layer-norm
  output, a \<open>TEColumnParallelLinear\<close> only the projection.
\<close>

record 'a linear_module =
  kind :: linear_kind
  return_layernorm_output :: bool
  projection :: "'a tensor \<Rightarrow> 'a tensor"
  layernorm :: "'a tensor \<Rightarrow> 'a tensor"

text \<open>
  A module: its class pointer (\<open>__class__\<close>), the state of the adapter mixin, and the
  \<open>linear_qkv\<close> attribute (\<open>None\<close> when the module has no such attribute). Every other
  attribute (weights, submodules, configuration) is in the extension of the record.
  A module is an instance of \<open>torch.nn.Module\<close>: its class is a class of the framework or
  one of the four mixins that derive from one, never \<open>MCoreAdapterModuleMixin\<close> itself.
  \<open>is_adapter_available\<close> and \<open>get_adapter_module\<close> are the results of the methods of
  \<open>AdapterModuleMixin\<close> (nemo.core.adapter\_mixins), whose code is not among the files modelled here.
\<close>

record ('a, 'ad) module =
  py_class :: py_class
  accepted_adapter_types :: "adapter_target set"
  is_adapter_available :: bool
  get_adapter_module :: "AdapterName \<Rightarrow> 'ad option"
  linear_qkv :: "'a linear_module option"

text \<open>
  Modelled from the spec: \<open>AdapterModuleMixin.set_accepted_adapter_types\<close>
  (nemo.core.adapter\_mixins) is not among the files modelled here. Following the docstring of
  \<open>mcore_register_adapters\<close> (a mixin registers its adapters with
  \<open>self.set_accepted_adapter_types([...])\<close>), the call makes the given types the accepted
  adapter types of the module.
\<close>

definition set_accepted_adapter_types ::
  "adapter_target list \<Rightarrow> ('a, 'ad, 'z) module_scheme \<Rightarrow> ('a, 'ad, 'z) module_scheme" where
  "set_accepted_adapter_types adapter_types m = m\<lparr>accepted_adapter_types := set adapter_types\<rparr>"

text \<open>
  \<open>self.mcore_register_adapters()\<close>, dispatched on the class of the module. The result
  is the exception raised, if any, and the module as the call leaves it. A framework
  class has no such method.
\<close>

definition mcore_register_adapters ::
  "('a, 'ad, 'z) module_scheme \<Rightarrow> py_error option \<times> ('a, 'ad, 'z) module_scheme" where
  "mcore_register_adapters m =
     (case py_class m of
        Mixin MCoreAdapterModuleMixin \<Rightarrow> (Some NotImplementedError, m)
      | Mixin MCoreSelfAttentionMixin \<Rightarrow>
          (let m1 = set_accepted_adapter_types
                      [LoraKQVAdapterConfig_target, InfusedAdapterConfig_target] m
           in case linear_qkv m1 of
                None \<Rightarrow> (Some AttributeError, m1)
              | Some l \<Rightarrow> (None, m1\<lparr>linear_qkv := Some (l\<lparr>return_layernorm_output := True\<rparr>)\<rparr>))
      | Mixin MCoreMLPMixin \<Rightarrow>
          (None, set_accepted_adapter_types [MLPInfusedAdapterConfig_target] m)
      | Mixin MCoreGPTEmbeddingMixin \<Rightarrow>
          (None, set_accepted_adapter_types [PromptEncoderAdapterConfig_target] m)
      | Mixin MCoreTransformerLayerMixin \<Rightarrow>
          (None, set_accepted_adapter_types [ParallelLinearAdapterConfig_target] m)
      | _ \<Rightarrow> (Some AttributeError, m))"

text \<open>
  \<open>module.__class__ = mcore_mixin\<close>. Python accepts the assignment only when the
  instances of the new class have the object layout of the module. The four mixins that
  derive from a class of the framework have the layout of every \<open>torch.nn.Module\<close>;
  \<open>MCoreAdapterModuleMixin\<close> derives from \<open>AdapterModuleMixin\<close>, a subclass of \<open>ABC\<close>,
  and not from \<open>torch.nn.Module\<close>: assigning it to a module raises a \<open>TypeError\<close> and
  leaves the class pointer as it was.
\<close>

definition assign_class ::
  "('a, 'ad, 'z) module_scheme \<Rightarrow> mcore_mixin \<Rightarrow> py_error + ('a, 'ad, 'z) module_scheme" where
  "assign_class m mcore_mixin =
     (if mcore_mixin = MCoreAdapterModuleMixin then Inl TypeError
      else Inr (m\<lparr>py_class := Mixin mcore_mixin\<rparr>))"

definition swap_mcore_mixin ::
  "('a, 'ad, 'z) module_scheme \<Rightarrow> mcore_mixin
   \<Rightarrow> py_error option \<times> ('a, 'ad, 'z) module_scheme" where
  "swap_mcore_mixin m mcore_mixin =
     (case assign_class m mcore_mixin of
        Inl err \<Rightarrow> (Some err, m)
      | Inr m1 \<Rightarrow> mcore_register_adapters m1)"

section \<open>The self-attention mixin\<close>

text \<open>
  The attributes of a self-attention module that \<open>get_query_key_value_tensors\<close> reads.
  Its adapters are modules applied to a tensor. The method is modelled block by block,
  in the order of the source: \<open>qkv_projection\<close> is the call of \<open>linear_qkv\<close> and the
  first test of its class, \<open>qkv_lora\<close> the LoRA logic, \<open>qkv_split\<close> the view, the split
  and the reshape of the query, \<open>qkv_infused\<close> the two infused adapters.
\<close>

record ('a, 'ad) self_attention = "('a, 'ad) module" +
  num_query_groups_per_partition :: nat
  num_attention_heads_per_partition :: nat
  hidden_size_per_attention_head :: nat

text \<open>
  The call of \<open>linear_qkv\<close> and the test of its class: the result is \<open>mixed_qkv\<close> and
  \<open>layernorm_output\<close>, which stays \<open>None\<close> for a \<open>TEColumnParallelLinear\<close>.
\<close>

definition qkv_projection ::
  "'a linear_module \<Rightarrow> 'a tensor \<Rightarrow> py_error + ('a tensor \<times> 'a tensor option)" where
  "qkv_projection l hidden_states =
     (case kind l of
        TELayerNormColumnParallelLinear \<Rightarrow>
          Inr (projection l hidden_states, Some (layernorm l hidden_states))
      | TEColumnParallelLinear \<Rightarrow> Inr (projection l hidden_states, None)
      | OtherLinear \<Rightarrow>
          Inl (ValueError
            ''Unrecognized module type when getting query, key, value tensors for mcore mixins.''))"

text \<open>
  The LoRA logic: with a \<open>LORA_KQV_ADAPTER\<close>, its output on the layer-norm output (or on
  the hidden states) is added to \<open>mixed_qkv\<close>. A call of the adapter on \<open>None\<close> is an
  error of the adapter's; here \<open>layernorm_output\<close> is set whenever it is used.
\<close>

definition qkv_lora ::
  "'a torch \<Rightarrow> ('a, 'a tensor \<Rightarrow> 'a tensor, 'z) self_attention_scheme \<Rightarrow> 'a linear_module
   \<Rightarrow> 'a tensor \<Rightarrow> 'a tensor \<Rightarrow> 'a tensor option \<Rightarrow> py_error + 'a tensor" where
  "qkv_lora torch self l hidden_states mixed_qkv layernorm_output =
     (if is_adapter_available self then
        (case get_adapter_module self LORA_KQV_ADAPTER of
           Some lora_kqv_adapter \<Rightarrow>
             bind_err
               (case kind l of
                  TELayerNormColumnParallelLinear \<Rightarrow>
                    (case layernorm_output of
                       Some ln \<Rightarrow> Inr (lora_kqv_adapter ln)
                     | None \<Rightarrow> Inl AttributeError)
                | TEColumnParallelLinear \<Rightarrow> Inr (lora_kqv_adapter hidden_states)
                | OtherLinear \<Rightarrow>
                    Inl (ValueError ''Unrecognized module type when applying lora.''))
               (\<lambda>lora_mixed_qkv. Inr (tensor_add torch mixed_qkv lora_mixed_qkv))
         | None \<Rightarrow> Inr mixed_qkv)
      else Inr mixed_qkv)"

text \<open>
  The reshaping: \<open>mixed_qkv\<close> is viewed with its last dimension split into the query
  groups, each group is split into query, key and value, and the query is reshaped to
  one row per attention head.
\<close>

definition qkv_split ::
  "('a, 'ad, 'z) self_attention_scheme \<Rightarrow> 'a tensor
   \<Rightarrow> py_error + ('a tensor \<times> 'a tensor \<times> 'a tensor)" where
  "qkv_split self mixed_qkv =
     (let ng = num_query_groups_per_partition self;
          np = num_attention_heads_per_partition self;
          hn = hidden_size_per_attention_head self
      in if ng = 0 then Inl ZeroDivisionError
         else
           bind_err (view mixed_qkv (butlast (shape mixed_qkv) @ [ng, (np div ng + 2) * hn]))
             (\<lambda>mixed_qkv.
           bind_err (torch_split mixed_qkv [np div ng * hn, hn, hn] 3)
             (\<lambda>pieces.
           case pieces of
             [query, key, value] \<Rightarrow>
               bind_err (size_at query 0) (\<lambda>s0.
               bind_err (size_at query 1) (\<lambda>s1.
               bind_err (reshape query [Some s0, Some s1, None, Some hn]) (\<lambda>query.
               Inr (query, key, value))))
           | _ \<Rightarrow> Inl (ValueError ''wrong number of values to unpack''))))"

text \<open>
  One infused (IA3) adapter applied to \<open>key\<close> or \<open>value\<close>: the tensor is flattened to
  three dimensions, passed to the adapter, and brought back to its shape and to the
  element type of the query.
\<close>

definition apply_infused ::
  "'a torch \<Rightarrow> ('a tensor \<Rightarrow> 'a tensor) \<Rightarrow> 'a tensor \<Rightarrow> 'a tensor \<Rightarrow> py_error + 'a tensor" where
  "apply_infused torch infused_adapter query x =
     (let ls = shape x
      in bind_err (size_at x 0) (\<lambda>s0.
         bind_err (size_at x 1) (\<lambda>s1.
         bind_err (reshape x [Some s0, Some s1, None]) (\<lambda>flat.
         bind_err (reshape (infused_adapter flat) (map Some ls)) (\<lambda>y.
         Inr (to_dtype_of torch y query))))))"

definition qkv_infused ::
  "'a torch \<Rightarrow> ('a, 'a tensor \<Rightarrow> 'a tensor, 'z) self_attention_scheme
   \<Rightarrow> 'a tensor \<times> 'a tensor \<times> 'a tensor \<Rightarrow> py_error + ('a tensor \<times> 'a tensor \<times> 'a tensor)" where
  "qkv_infused torch self qkv =
     (case qkv of (query, key, value) \<Rightarrow>
        if is_adapter_available self then
          (let key_infused_adapter = get_adapter_module self KEY_INFUSED;
               value_infused_adapter = get_adapter_module self VALUE_INFUSED
           in bind_err
                (case key_infused_adapter of
                   Some ka \<Rightarrow>
                     (if value_infused_adapter = None then Inl AssertionError
                      else apply_infused torch ka query key)
                 | None \<Rightarrow> Inr key)
                (\<lambda>key.
              bind_err
                (case value_infused_adapter of
                   Some va \<Rightarrow>
                     (if key_infused_adapter = None then Inl AssertionError
                      else apply_infused torch va query value)
                 | None \<Rightarrow> Inr value)
                (\<lambda>value. Inr (query, key, value))))
        else Inr (query, key, value))"

definition get_query_key_value_tensors ::
  "'a torch \<Rightarrow> ('a, 'a tensor \<Rightarrow> 'a tensor, 'z) self_attention_scheme \<Rightarrow> 'a tensor
   \<Rightarrow> py_error + ('a tensor \<times> 'a tensor \<times> 'a tensor)" where
  "get_query_key_value_tensors torch self hidden_states =
     (case linear_qkv self of
        None \<Rightarrow> Inl AttributeError
      | Some l \<Rightarrow>
          bind_err (qkv_projection l hidden_states) (\<lambda>(mixed_qkv, layernorm_output).
          bind_err (qkv_lora torch self l hidden_states mixed_qkv layernorm_output) (\<lambda>mixed_qkv.
          bind_err (qkv_split self mixed_qkv) (\<lambda>qkv.
          qkv_infused torch self qkv))))"

section \<open>The embedding mixin\<close>

text \<open>
  The prompt-tuning adapter: its number of virtual tokens and its call on a batch size.
  \<open>MCoreGPTEmbeddingMixin.forward\<close> takes the result of the base class's \<open>forward\<close>
  (\<open>super().forward(input_ids, position_ids)\<close>) as the function \<open>base_forward\<close>.
\<close>

record 'a prompt_encoder =
  virtual_tokens :: int
  encode :: "nat \<Rightarrow> 'a tensor"

definition MCoreGPTEmbeddingMixin_forward ::
  "('i \<Rightarrow> 'p \<Rightarrow> 'a tensor) \<Rightarrow> ('a, 'a prompt_encoder, 'z) module_scheme \<Rightarrow> 'i \<Rightarrow> 'p
   \<Rightarrow> py_error + 'a tensor" where
  "MCoreGPTEmbeddingMixin_forward base_forward self input_ids position_ids =
     (let encoder_input = base_forward input_ids position_ids
      in if is_adapter_available self then
           (case shape encoder_input of
              [sq, bs, hs] \<Rightarrow>
                (case get_adapter_module self PTUNING_ADAPTER of
                   None \<Rightarrow> Inl AttributeError
                 | Some ptuning_adapter \<Rightarrow>
                     (let v = virtual_tokens ptuning_adapter
                      in if int sq \<ge> v then
                           (let virtual_embeddings = encode ptuning_adapter bs
                            in bind_err (slice_from encoder_input v) (\<lambda>encoder_input.
                               concat_dim0 virtual_embeddings encoder_input))
                         else Inr encoder_input))
            | _ \<Rightarrow> Inl (ValueError ''wrong number of values to unpack''))
         else Inr encoder_input)"

section \<open>The Griffin model (griffin\_model.py)\<close>

text \<open>
  The tensors of the model hold floating-point numbers and are computed by the
  framework: they are values of an abstract type \<open>'t\<close>, floats of an abstract type
  \<open>'f\<close>, the framework's modules of a type \<open>'o\<close>, and the configuration of a type \<open>'c\<close>.
  The framework's constructors and operations that the class calls are the fields of a
  record; each is a function of its arguments.
\<close>

record ('o, 't) GriffinStack =
  stack_module :: 'o
  stack_input_tensor :: "'t option"

record ('c, 'f, 'o, 't) framework =
  LanguageModelEmbedding_init :: "'c \<Rightarrow> int \<Rightarrow> int \<Rightarrow> 'o"
  RotaryEmbedding_init :: "'c \<Rightarrow> 'f \<Rightarrow> int \<Rightarrow> 'o"
  GriffinStack_init :: "'c \<Rightarrow> ('o, 't) GriffinStack"
  word_embeddings_weight :: "'o \<Rightarrow> 't"
  output_layer_weight :: "'o \<Rightarrow> 't"
  layer_allocate_inference_cache :: "'o \<Rightarrow> int \<Rightarrow> int \<Rightarrow> 't"
  arange_expand_as :: "'t \<Rightarrow> 't"
  embedding_call :: "'o \<Rightarrow> 't \<Rightarrow> 't \<Rightarrow> 't"
  scale_by_sqrt_hidden_size :: "'c \<Rightarrow> 't \<Rightarrow> 't"
  rotary_call :: "'o \<Rightarrow> 'o \<Rightarrow> 't \<Rightarrow> 'c \<Rightarrow> 't"
  decoder_call :: "'o \<Rightarrow> 't \<Rightarrow> 't option \<Rightarrow> 't option \<Rightarrow> 't"
  permute_102 :: "'t \<Rightarrow> 't"
  matmul_transposed :: "'t \<Rightarrow> 't \<Rightarrow> 't"
  tanh_soft_cap :: "'f \<Rightarrow> 't \<Rightarrow> 't"
  transpose_01 :: "'t \<Rightarrow> 't"
  contiguous :: "'t \<Rightarrow> 't"
  compute_language_model_loss :: "'t \<Rightarrow> 't \<Rightarrow> 't"

text \<open>
  The attributes of a \<open>GriffinModel\<close>. \<open>embedding\<close> and \<open>rotary_pos_emb\<close> are assigned by
  the constructor only under a condition; \<open>input_tensor\<close> is assigned only by
  \<open>set_input_tensor\<close>; \<open>output_layer\<close> and \<open>layers\<close> are read but never assigned by the
  class. For these, \<open>None\<close> is an attribute that is absent. A tensor argument that may
  be Python's \<open>None\<close> is an option as well.
\<close>

record ('c, 'f, 'o, 't) GriffinModel =
  config :: 'c
  vocab_size :: int
  logits_soft_cap :: 'f
  position_embedding_type :: string
  pre_process :: bool
  post_process :: bool
  share_embeddings_and_output_weights :: bool
  embedding :: "'o option"
  rotary_pos_emb :: "'o option"
  decoder :: "('o, 't) GriffinStack"
  input_tensor :: "'t option option"
  output_layer :: "'o option"
  layers :: "'o list option"

text \<open>
  The constructor, with every argument given (the defaults of the source are
  \<open>vocab_size = 256000\<close>, \<open>logits_soft_cap = 30.0\<close>, \<open>position_embedding_type = 'rope'\<close>,
  \<open>max_sequence_length = 1024\<close>, \<open>rotary_percent = 0.5\<close>, \<open>rotary_base = 10000\<close>,
  \<open>pre_process = True\<close>).
\<close>

definition GriffinModel_init ::
  "('c, 'f, 'o, 't) framework \<Rightarrow> 'c \<Rightarrow> int \<Rightarrow> 'f \<Rightarrow> string \<Rightarrow> int \<Rightarrow> 'f \<Rightarrow> int \<Rightarrow> bool
   \<Rightarrow> ('c, 'f, 'o, 't) GriffinModel" where
  "GriffinModel_init fw cfg vocab cap pos_type max_sequence_length rotary_percent rotary_base pre =
     \<lparr> config = cfg,
       vocab_size = vocab,
       logits_soft_cap = cap,
       position_embedding_type = pos_type,
       pre_process = pre,
       post_process = False,
       share_embeddings_and_output_weights = True,
       embedding = (if pre then Some (LanguageModelEmbedding_init fw cfg vocab max_sequence_length)
                    else None),
       rotary_pos_emb = (if pos_type = ''rope''
                         then Some (RotaryEmbedding_init fw cfg rotary_percent rotary_base)
                         else None),
       decoder = GriffinStack_init fw cfg,
       input_tensor = None,
       output_layer = None,
       layers = None \<rparr>"

definition shared_embedding_or_output_weight ::
  "('c, 'f, 'o, 't) framework \<Rightarrow> ('c, 'f, 'o, 't) GriffinModel \<Rightarrow> py_error + 't option" where
  "shared_embedding_or_output_weight fw self =
     (if pre_process self then
        (case embedding self of
           Some e \<Rightarrow> Inr (Some (word_embeddings_weight fw e))
         | None \<Rightarrow> Inl AttributeError)
      else if post_process self then
        (case output_layer self of
           Some ol \<Rightarrow> Inr (Some (output_layer_weight fw ol))
         | None \<Rightarrow> Inl AttributeError)
      else Inr None)"

definition allocate_inference_cache ::
  "('c, 'f, 'o, 't) framework \<Rightarrow> ('c, 'f, 'o, 't) GriffinModel \<Rightarrow> int \<Rightarrow> int
   \<Rightarrow> py_error + (nat \<times> 't) list" where
  "allocate_inference_cache fw self batch_size max_seqlen =
     (case layers self of
        Some ls \<Rightarrow>
          Inr (map (\<lambda>(i, layer). (i, layer_allocate_inference_cache fw layer batch_size max_seqlen))
                 (enumerate 0 ls))
      | None \<Rightarrow> Inl AttributeError)"

definition set_input_tensor ::
  "('c, 'f, 'o, 't) GriffinModel \<Rightarrow> 't option \<Rightarrow> ('c, 'f, 'o, 't) GriffinModel" where
  "set_input_tensor self t = self\<lparr>input_tensor := Some t\<rparr>"

definition griffin_position_ids ::
  "('c, 'f, 'o, 't) framework \<Rightarrow> 't option \<Rightarrow> py_error + 't" where
  "griffin_position_ids fw token_ids =
     (case token_ids of
        Some ids \<Rightarrow> Inr (arange_expand_as fw ids)
      | None \<Rightarrow> Inl AttributeError)"

definition embedding_forward ::
  "('c, 'f, 'o, 't) framework \<Rightarrow> ('c, 'f, 'o, 't) GriffinModel \<Rightarrow> 't option \<Rightarrow> py_error + 't" where
  "embedding_forward fw self input_ids =
     bind_err (griffin_position_ids fw input_ids) (\<lambda>position_ids.
       case (embedding self, input_ids) of
         (Some e, Some ids) \<Rightarrow>
           Inr (scale_by_sqrt_hidden_size fw (config self) (embedding_call fw e ids position_ids))
       | _ \<Rightarrow> Inl AttributeError)"

definition embedding_decode_inner ::
  "('c, 'f, 'o, 't) framework \<Rightarrow> ('c, 'f, 'o, 't) GriffinModel \<Rightarrow> 't \<Rightarrow> bool \<Rightarrow> 't" where
  "embedding_decode_inner fw self logits transpose_flag =
     (let logits = tanh_soft_cap fw (logits_soft_cap self) logits;
          logits = (if transpose_flag then transpose_01 fw logits else logits)
      in contiguous fw logits)"

definition embedding_decode ::
  "('c, 'f, 'o, 't) framework \<Rightarrow> ('c, 'f, 'o, 't) GriffinModel \<Rightarrow> 't \<Rightarrow> bool \<Rightarrow> py_error + 't" where
  "embedding_decode fw self x transpose_flag =
     (let x = permute_102 fw x
      in case embedding self of
           Some e \<Rightarrow>
             Inr (embedding_decode_inner fw self
                    (matmul_transposed fw x (word_embeddings_weight fw e)) transpose_flag)
         | None \<Rightarrow> Inl AttributeError)"

text \<open>
  \<open>_embedding_decode_\<close> is \<open>embedding_decode_inner\<close> here. \<open>forward\<close> returns its result together with the model as the call leaves it: the
  assignment \<open>self.decoder.input_tensor = None\<close> is made once the embedding has been
  computed, whether or not a later statement raises.
\<close>

definition forward ::
  "('c, 'f, 'o, 't) framework \<Rightarrow> ('c, 'f, 'o, 't) GriffinModel
   \<Rightarrow> 't option \<Rightarrow> 't option \<Rightarrow> 't option \<Rightarrow> 't option
   \<Rightarrow> (py_error + 't) \<times> ('c, 'f, 'o, 't) GriffinModel" where
  "forward fw self input_ids position_ids attention_mask labels =
     (case (case input_ids of
              None \<Rightarrow> (case input_tensor self of
                          Some t \<Rightarrow> Inr t
                        | None \<Rightarrow> Inl AttributeError)
            | Some ids \<Rightarrow> Inr (Some ids)) of
        Inl err \<Rightarrow> (Inl err, self)
      | Inr input_ids \<Rightarrow>
          (case embedding_forward fw self input_ids of
             Inl err \<Rightarrow> (Inl err, self)
           | Inr hidden_states \<Rightarrow>
               (let self = self\<lparr>decoder := (decoder self)\<lparr>stack_input_tensor := None\<rparr>\<rparr>
                in (bind_err
                      (if position_embedding_type self = ''rope'' then
                         (case rotary_pos_emb self of
                            Some rope \<Rightarrow>
                              Inr (Some (rotary_call fw rope (stack_module (decoder self))
                                           hidden_states (config self)))
                          | None \<Rightarrow> Inl AttributeError)
                       else Inr None)
                      (\<lambda>rotary.
                    let hidden_states = decoder_call fw (stack_module (decoder self))
                                          hidden_states attention_mask rotary
                    in bind_err (embedding_decode fw self hidden_states (labels \<noteq> None))
                         (\<lambda>logits.
                       case labels of
                         None \<Rightarrow> Inr logits
                       | Some lbl \<Rightarrow> Inr (compute_language_model_loss fw lbl logits))),
                    self))))"

text \<open>
  A call of a method of the class, and the model after a call. Only \<open>set_input_tensor\<close>
  and \<open>forward\<close> assign to an attribute; the other methods leave the model as it is,
  whether they return or raise. \<open>after_calls\<close> runs a sequence of calls.
\<close>

datatype 't method_call =
    Call_shared_embedding_or_output_weight
  | Call_allocate_inference_cache int int
  | Call_set_input_tensor "'t option"
  | Call_griffin_position_ids "'t option"
  | Call_embedding_forward "'t option"
  | Call_embedding_decode_inner 't bool
  | Call_embedding_decode 't bool
  | Call_forward "'t option" "'t option" "'t option" "'t option"

fun after_call ::
  "('c, 'f, 'o, 't) framework \<Rightarrow> ('c, 'f, 'o, 't) GriffinModel \<Rightarrow> 't method_call
   \<Rightarrow> ('c, 'f, 'o, 't) GriffinModel" where
  "after_call fw self (Call_set_input_tensor t) = set_input_tensor self t"
| "after_call fw self (Call_forward input_ids position_ids attention_mask labels) =
     snd (forward fw self input_ids position_ids attention_mask labels)"
| "after_call fw self _ = self"

definition after_calls ::
  "('c, 'f, 'o, 't) framework \<Rightarrow> ('c, 'f, 'o, 't) GriffinModel \<Rightarrow> 't method_call list
   \<Rightarrow> ('c, 'f, 'o, 't) GriffinModel" where
  "after_calls fw self calls = foldl (after_call fw) self calls"

section \<open>Reading tensors\<close>

text \<open>
  The element \<open>t[i, j, ...]\<close> of a tensor is found at the row-major position of its
  index. A tensor is well formed when it has as many elements as its shape says. The
  elements that \<open>torch.split\<close> keeps of a tensor whose last dimension has size \<open>w\<close>, seen
  as \<open>m\<close> rows of \<open>w\<close> elements, are the \<open>n\<close> elements from position \<open>off\<close> on of every row.
\<close>

definition flat_index :: "nat list \<Rightarrow> nat list \<Rightarrow> nat" where
  "flat_index sh idx = foldl (\<lambda>acc (n, i). acc * n + i) 0 (zip sh idx)"

definition element :: "'a tensor \<Rightarrow> nat list \<Rightarrow> 'a" where
  "element t idx = data t ! flat_index (shape t) idx"

definition well_formed :: "'a tensor \<Rightarrow> bool" where
  "well_formed t \<longleftrightarrow> length (data t) = numel t"

definition last_dim_piece :: "'a list \<Rightarrow> nat \<Rightarrow> nat \<Rightarrow> nat \<Rightarrow> nat \<Rightarrow> 'a list" where
  "last_dim_piece xs m w off n = concat (map (\<lambda>k. take n (drop (k * w + off) xs)) [0..<m])"

section \<open>Concrete modules and tensors\<close>

text \<open>
  Small instances on which the theorems below are evaluated: a module that was never
  patched, a linear layer that returns its input, and a self-attention module without
  adapters, over tensors of natural numbers.
\<close>

definition identity_linear :: "linear_kind \<Rightarrow> bool \<Rightarrow> nat linear_module" where
  "identity_linear k flag =
     \<lparr> kind = k, return_layernorm_output = flag,
       projection = (\<lambda>t. t), layernorm = (\<lambda>t. t) \<rparr>"

definition plain_module :: "(nat, unit) module" where
  "plain_module =
     \<lparr> py_class = SelfAttention,
       accepted_adapter_types = {},
       is_adapter_available = False,
       get_adapter_module = (\<lambda>_. None),
       linear_qkv = Some (identity_linear TELayerNormColumnParallelLinear False) \<rparr>"

definition nat_torch :: "nat torch" where
  "nat_torch =
     \<lparr> tensor_add = (\<lambda>a b. \<lparr>shape = shape a, data = map2 (+) (data a) (data b)\<rparr>),
       to_dtype_of = (\<lambda>a b. a) \<rparr>"

definition attention_without_adapters ::
  "linear_kind \<Rightarrow> nat \<Rightarrow> nat \<Rightarrow> nat \<Rightarrow> (nat, nat tensor \<Rightarrow> nat tensor) self_attention" where
  "attention_without_adapters k ng np hn =
     \<lparr> py_class = Mixin MCoreSelfAttentionMixin,
       accepted_adapter_types = {LoraKQVAdapterConfig_target, InfusedAdapterConfig_target},
       is_adapter_available = False,
       get_adapter_module = (\<lambda>_. None),
       linear_qkv = Some (identity_linear k True),
       num_query_groups_per_partition = ng,
       num_attention_heads_per_partition = np,
       hidden_size_per_attention_head = hn \<rparr>"

text \<open>
  For the embedding mixin: a base \<open>forward\<close> that returns a tensor of zeros of a given
  shape, a patched embedding on which an adapter is registered under a name other than
  \<open>PTUNING_ADAPTER\<close>, and one with a prompt-tuning adapter of \<open>v\<close> virtual tokens.
\<close>

definition constant_embedding :: "nat list \<Rightarrow> unit \<Rightarrow> unit \<Rightarrow> nat tensor" where
  "constant_embedding sh input_ids position_ids =
     \<lparr>shape = sh, data = replicate (prod_list sh) 0\<rparr>"

definition embedding_with_unnamed_adapter :: "(nat, nat prompt_encoder) module" where
  "embedding_with_unnamed_adapter =
     \<lparr> py_class = Mixin MCoreGPTEmbeddingMixin,
       accepted_adapter_types = {PromptEncoderAdapterConfig_target},
       is_adapter_available = True,
       get_adapter_module = (\<lambda>_. None),
       linear_qkv = None \<rparr>"

definition embedding_with_ptuning :: "int \<Rightarrow> nat \<Rightarrow> (nat, nat prompt_encoder) module" where
  "embedding_with_ptuning v hs =
     \<lparr> py_class = Mixin MCoreGPTEmbeddingMixin,
       accepted_adapter_types = {PromptEncoderAdapterConfig_target},
       is_adapter_available = True,
       get_adapter_module = (\<lambda>name. if name = PTUNING_ADAPTER
          then Some \<lparr> virtual_tokens = v,
                      encode = (\<lambda>bs. \<lparr>shape = [nat v, bs, hs],
                                      data = replicate (nat v * bs * hs) 7\<rparr>) \<rparr>
          else None),
       linear_qkv = None \<rparr>"

section \<open>Basic facts about errors and tensor operations\<close>

lemma bind_err_Inl_iff:
  "bind_err r f = Inl e \<longleftrightarrow> r = Inl e \<or> (\<exists>v. r = Inr v \<and> f v = Inl e)"
  by (cases r) (simp_all add: bind_err_def)

lemma bind_err_Inr [simp]: "bind_err (Inr v) f = f v"
  by (simp add: bind_err_def)

lemma bind_err_Inl [simp]: "bind_err (Inl e) f = Inl e"
  by (simp add: bind_err_def)

lemma view_not_ValueError: "view t sh \<noteq> Inl (ValueError msg)"
  by (simp add: view_def)

lemma reshape_not_ValueError: "reshape t sh \<noteq> Inl (ValueError msg)"
  by (simp add: reshape_def Let_def)

lemma size_at_not_ValueError: "size_at t i \<noteq> Inl (ValueError msg)"
  by (simp add: size_at_def)

lemma torch_split_three:
  "torch_split t [a, b, c] d = Inr ps \<Longrightarrow> \<exists>x y z. ps = [x, y, z]"
  by (auto simp: torch_split_def split: if_splits)

lemma torch_split_not_ValueError: "torch_split t sizes d \<noteq> Inl (ValueError msg)"
  by (simp add: torch_split_def)

lemma block_index_less:
  assumes "k < m" and "j < n"
  shows "k * n + j < m * (n::nat)"
proof -
  have "k * n + j < Suc k * n" using assms(2) by simp
  also have "\<dots> \<le> m * n" using assms(1) by (intro mult_le_mono1) simp
  finally show ?thesis .
qed

lemma length_concat_blocks:
  "(\<And>k. k < m \<Longrightarrow> length (f k) = n) \<Longrightarrow> length (concat (map f [0..<m])) = m * n"
  by (induction m) simp_all

lemma nth_concat_blocks:
  assumes "\<And>k. k < m \<Longrightarrow> length (f k) = n" and "k < m" and "j < n"
  shows "concat (map f [0..<m]) ! (k * n + j) = f k ! j"
  using assms
proof (induction m)
  case 0
  then show ?case by simp
next
  case (Suc m)
  have len: "length (concat (map f [0..<m])) = m * n"
    using Suc.prems(1) by (intro length_concat_blocks) simp
  show ?case
  proof (cases "k < m")
    case True
    then have "k * n + j < m * n"
      using Suc.prems(3) by (rule block_index_less)
    moreover have "concat (map f [0..<m]) ! (k * n + j) = f k ! j"
      using Suc.IH [OF _ True Suc.prems(3)] Suc.prems(1) by simp
    ultimately show ?thesis by (simp add: nth_append len)
  next
    case False
    with Suc.prems(2) have "k = m" by simp
    then show ?thesis by (simp add: nth_append len)
  qed
qed

lemma nth_last_dim_piece:
  assumes len: "length xs = m * w" and fit: "off + n \<le> w" and k: "k < m" and j: "j < n"
  shows "last_dim_piece xs m w off n ! (k * n + j) = xs ! (k * w + off + j)"
proof -
  have blk: "length (take n (drop (k' * w + off) xs)) = n" if "k' < m" for k'
  proof -
    have "Suc k' * w \<le> m * w" using that by (intro mult_le_mono1) simp
    then have "k' * w + off + n \<le> length xs" using fit len by simp
    then show ?thesis by simp
  qed
  have "last_dim_piece xs m w off n ! (k * n + j) = take n (drop (k * w + off) xs) ! j"
    unfolding last_dim_piece_def using blk k j by (rule nth_concat_blocks)
  also have "\<dots> = xs ! (k * w + off + j)"
  proof -
    have "Suc k * w \<le> m * w" using k by (intro mult_le_mono1) simp
    then have "k * w + off + j < length xs" using fit len j by simp
    then show ?thesis using j by simp
  qed
  finally show ?thesis .
qed

lemma split_piece_last_dim:
  "split_piece \<lparr>shape = [sq, b, ng, w], data = xs\<rparr> 3 off n
     = \<lparr>shape = [sq, b, ng, n], data = last_dim_piece xs (sq * b * ng) w off n\<rparr>"
  by (simp add: split_piece_def last_dim_piece_def eval_nat_numeral mult.assoc)

lemma flat_index3: "flat_index [a, b, c] [i, j, k] = (i * b + j) * c + k"
  by (simp add: flat_index_def)

lemma flat_index4: "flat_index [a, b, c, d] [i, j, k, l] = ((i * b + j) * c + k) * d + l"
  by (simp add: flat_index_def)

section \<open>Properties of the placeholder tokens\<close>

text \<open>
  Claim C6. \<open>ImageToken()\<close> has token string \<open><image>\<close>, token index \<open>-200\<close>, which is
  the module constant \<open>IMAGE_TOKEN_INDEX\<close>, media type \<open>image\<close>, \<open>use_start_end\<close> false
  and no encoder function; \<open>VideoToken()\<close> has \<open><video>\<close>, \<open>-300\<close>, which is
  \<open>VIDEO_TOKEN_INDEX\<close>, \<open>video\<close>, false and no encoder function.
\<close>

theorem token_defaults:
  "token_str (ImageToken None None None None None) = ''<image>''
   \<and> token_index (ImageToken None None None None None) = -200
   \<and> token_index (ImageToken None None None None None) = IMAGE_TOKEN_INDEX
   \<and> media_type (ImageToken None None None None None) = ''image''
   \<and> use_start_end (ImageToken None None None None None) = False
   \<and> encoder_fn (ImageToken None None None None None) = None
   \<and> token_str (VideoToken None None None None None) = ''<video>''
   \<and> token_index (VideoToken None None None None None) = -300
   \<and> token_index (VideoToken None None None None None) = VIDEO_TOKEN_INDEX
   \<and> media_type (VideoToken None None None None None) = ''video''
   \<and> use_start_end (VideoToken None None None None None) = False
   \<and> encoder_fn (VideoToken None None None None None) = None"
  by (simp add: ImageToken_def VideoToken_def arg_or_default_def
      IMAGE_TOKEN_INDEX_def VIDEO_TOKEN_INDEX_def)

section \<open>Properties of the class swap\<close>

text \<open>
  Claim C2. After \<open>swap_mcore_mixin(module, M)\<close> the accepted adapter types of the
  module are exactly those that \<open>M\<close> registers: the LoRA and IA3 targets for
  \<open>MCoreSelfAttentionMixin\<close>, the MLP IA3 target for \<open>MCoreMLPMixin\<close>, the prompt-encoder
  target for \<open>MCoreGPTEmbeddingMixin\<close>, and the parallel-linear-adapter target for
  \<open>MCoreTransformerLayerMixin\<close>; this holds for every module, whatever it accepted before.
\<close>

theorem swap_accepted_adapter_types:
  "accepted_adapter_types (snd (swap_mcore_mixin m MCoreSelfAttentionMixin))
     = {LoraKQVAdapterConfig_target, InfusedAdapterConfig_target}
   \<and> accepted_adapter_types (snd (swap_mcore_mixin m MCoreMLPMixin))
     = {MLPInfusedAdapterConfig_target}
   \<and> accepted_adapter_types (snd (swap_mcore_mixin m MCoreGPTEmbeddingMixin))
     = {PromptEncoderAdapterConfig_target}
   \<and> accepted_adapter_types (snd (swap_mcore_mixin m MCoreTransformerLayerMixin))
     = {ParallelLinearAdapterConfig_target}"
  by (simp add: swap_mcore_mixin_def assign_class_def mcore_register_adapters_def
      set_accepted_adapter_types_def Let_def split: option.split)

text \<open>
  Claim C3, as stated, fails: the swap to \<open>MCoreSelfAttentionMixin\<close> also sets the
  configuration flag \<open>return_layernorm_output\<close> of the submodule \<open>linear_qkv\<close>. On a
  module whose flag is off, the swap succeeds and leaves the flag on.
\<close>

theorem swap_frame_counterexample:
  "map_option return_layernorm_output (linear_qkv plain_module) = Some False
   \<and> map_option return_layernorm_output
       (linear_qkv (snd (swap_mcore_mixin plain_module MCoreSelfAttentionMixin))) = Some True
   \<and> fst (swap_mcore_mixin plain_module MCoreSelfAttentionMixin) = None"
  by (simp add: plain_module_def identity_linear_def swap_mcore_mixin_def assign_class_def
      mcore_register_adapters_def set_accepted_adapter_types_def Let_def)

lemma swap_to_abstract_mixin:
  "swap_mcore_mixin m MCoreAdapterModuleMixin = (Some TypeError, m)"
  by (simp add: swap_mcore_mixin_def assign_class_def)

text \<open>
  Claim C3, amended. Let \<open>m\<close> be a module (its class is not \<open>MCoreAdapterModuleMixin\<close>,
  which is no module class) and \<open>M\<close> a mixin class. Whether the swap
  returns or raises, apart from the class pointer and the accepted adapter types the only
  attribute of the module it leaves that can differ is the flag \<open>return_layernorm_output\<close>
  of \<open>linear_qkv\<close>, which the swap to \<open>MCoreSelfAttentionMixin\<close> sets to true; the adapter
  state, the rest of \<open>linear_qkv\<close> and every other attribute are unchanged. The class
  pointer is \<open>M\<close> for the four mixins that derive from a class of the framework; for
  \<open>MCoreAdapterModuleMixin\<close> the class assignment raises and the class pointer stays.
\<close>

theorem swap_frame:
  assumes "swap_mcore_mixin m M = (r, m')"
    and "py_class m \<noteq> Mixin MCoreAdapterModuleMixin"
  shows "py_class m' = (if M = MCoreAdapterModuleMixin then py_class m else Mixin M)
    \<and> is_adapter_available m' = is_adapter_available m
    \<and> get_adapter_module m' = get_adapter_module m
    \<and> module.more m' = module.more m
    \<and> linear_qkv m' =
        (if M = MCoreSelfAttentionMixin
         then map_option (\<lambda>l. l\<lparr>return_layernorm_output := True\<rparr>) (linear_qkv m)
         else linear_qkv m)"
  using assms(1)
  by (cases M)
     (auto simp: swap_mcore_mixin_def assign_class_def mcore_register_adapters_def
        set_accepted_adapter_types_def Let_def split: option.splits)

theorem swap_frame_witness:
  "swap_mcore_mixin plain_module MCoreSelfAttentionMixin
     = (None, plain_module
          \<lparr> py_class := Mixin MCoreSelfAttentionMixin,
            accepted_adapter_types := {LoraKQVAdapterConfig_target, InfusedAdapterConfig_target},
            linear_qkv := Some (identity_linear TELayerNormColumnParallelLinear True) \<rparr>)
   \<and> py_class plain_module \<noteq> Mixin MCoreAdapterModuleMixin
   \<and> get_adapter_module
        (plain_module
          \<lparr> py_class := Mixin MCoreSelfAttentionMixin,
            accepted_adapter_types := {LoraKQVAdapterConfig_target, InfusedAdapterConfig_target},
            linear_qkv := Some (identity_linear TELayerNormColumnParallelLinear True) \<rparr>)
      = get_adapter_module plain_module"
proof -
  have h: "swap_mcore_mixin plain_module MCoreSelfAttentionMixin
     = (None, plain_module
          \<lparr> py_class := Mixin MCoreSelfAttentionMixin,
            accepted_adapter_types := {LoraKQVAdapterConfig_target, InfusedAdapterConfig_target},
            linear_qkv := Some (identity_linear TELayerNormColumnParallelLinear True) \<rparr>)"
    by (simp add: plain_module_def identity_linear_def swap_mcore_mixin_def assign_class_def
        mcore_register_adapters_def set_accepted_adapter_types_def Let_def)
  have c: "py_class plain_module \<noteq> Mixin MCoreAdapterModuleMixin"
    by (simp add: plain_module_def)
  from swap_frame [OF h c] h c show ?thesis by simp
qed

section \<open>Properties of the self-attention mixin\<close>

lemma qkv_split_not_ValueError: "qkv_split self mixed \<noteq> Inl (ValueError msg)"
proof
  assume "qkv_split self mixed = Inl (ValueError msg)"
  then show False
    by (auto simp: qkv_split_def Let_def bind_err_Inl_iff view_not_ValueError
        torch_split_not_ValueError size_at_not_ValueError reshape_not_ValueError
        dest!: torch_split_three split: if_splits)
qed

lemma apply_infused_not_ValueError: "apply_infused torch ad q x \<noteq> Inl (ValueError msg)"
  by (auto simp: apply_infused_def Let_def bind_err_Inl_iff size_at_not_ValueError
      reshape_not_ValueError)

lemma qkv_infused_not_ValueError: "qkv_infused torch self qkv \<noteq> Inl (ValueError msg)"
  by (cases qkv)
     (auto simp: qkv_infused_def Let_def bind_err_Inl_iff apply_infused_not_ValueError
        split: option.splits if_splits)

lemma qkv_lora_ValueError:
  "qkv_lora torch self l hs mixed ln = Inl (ValueError msg) \<Longrightarrow> kind l = OtherLinear"
  by (auto simp: qkv_lora_def bind_err_Inl_iff split: if_splits option.splits linear_kind.splits)

lemma qkv_projection_ValueError_iff:
  "(\<exists>msg. qkv_projection l hs = Inl (ValueError msg)) \<longleftrightarrow> kind l = OtherLinear"
  by (cases "kind l") (simp_all add: qkv_projection_def)

lemma qkv_split_result:
  assumes ng: "num_query_groups_per_partition self = ng"
    and np: "num_attention_heads_per_partition self = np"
    and hn: "hidden_size_per_attention_head self = hn"
    and sh: "shape mixed = [sq, b, ng * (np div ng + 2) * hn]"
    and pos: "0 < sq" "0 < b" "0 < hn" "0 < ng"
  shows "qkv_split self mixed =
     Inr (\<lparr>shape = [sq, b, ng * (np div ng), hn],
           data = last_dim_piece (data mixed) (sq * b * ng) ((np div ng + 2) * hn) 0 (np div ng * hn)\<rparr>,
          \<lparr>shape = [sq, b, ng, hn],
           data = last_dim_piece (data mixed) (sq * b * ng) ((np div ng + 2) * hn) (np div ng * hn) hn\<rparr>,
          \<lparr>shape = [sq, b, ng, hn],
           data = last_dim_piece (data mixed) (sq * b * ng) ((np div ng + 2) * hn)
                    (np div ng * hn + hn) hn\<rparr>)"
proof -
  define r where "r = np div ng"
  define w where "w = (r + 2) * hn"
  have mixed: "mixed = \<lparr>shape = [sq, b, ng * (r + 2) * hn], data = data mixed\<rparr>"
    using sh by (simp add: r_def)
  have width: "ng * (np div ng + 2) * hn = ng * w"
    by (simp add: w_def r_def algebra_simps)
  have v: "view mixed (butlast (shape mixed) @ [ng, w])
             = Inr \<lparr>shape = [sq, b, ng, w], data = data mixed\<rparr>"
    unfolding view_def numel_def sh width by (subst mixed) (simp add: r_def)
  have sp: "torch_split \<lparr>shape = [sq, b, ng, w], data = data mixed\<rparr> [r * hn, hn, hn] 3
    = Inr [\<lparr>shape = [sq, b, ng, r * hn], data = last_dim_piece (data mixed) (sq * b * ng) w 0 (r * hn)\<rparr>,
           \<lparr>shape = [sq, b, ng, hn], data = last_dim_piece (data mixed) (sq * b * ng) w (r * hn) hn\<rparr>,
           \<lparr>shape = [sq, b, ng, hn], data = last_dim_piece (data mixed) (sq * b * ng) w (r * hn + hn) hn\<rparr>]"
  proof -
    have total: "r * hn + (hn + hn) = w"
      by (simp add: w_def algebra_simps)
    show ?thesis
      by (simp add: torch_split_def split_piece_last_dim total)
  qed
  have known: "known_sizes [Some sq, Some b, None, Some hn] = sq * b * hn"
    by (simp add: known_sizes_def)
  have num: "sq * b * ng * (r * hn) = (ng * r) * (sq * b * hn)"
    by (simp add: algebra_simps)
  have rs: "reshape \<lparr>shape = [sq, b, ng, r * hn], data = xs\<rparr> [Some sq, Some b, None, Some hn]
     = Inr \<lparr>shape = [sq, b, ng * r, hn], data = xs\<rparr>" for xs :: "'a list"
    using pos unfolding reshape_def known
    by (simp add: numel_def Let_def mult.assoc [symmetric] num)
  have s0: "size_at \<lparr>shape = [sq, b, ng, r * hn], data = xs\<rparr> 0 = Inr sq" for xs :: "'a list"
    by (simp add: size_at_def)
  have s1: "size_at \<lparr>shape = [sq, b, ng, r * hn], data = xs\<rparr> 1 = Inr b" for xs :: "'a list"
    by (simp add: size_at_def)
  have "qkv_split self mixed =
      bind_err (view mixed (butlast (shape mixed) @ [ng, w]))
        (\<lambda>mixed_qkv.
      bind_err (torch_split mixed_qkv [r * hn, hn, hn] 3)
        (\<lambda>pieces.
      case pieces of
        [query, key, value] \<Rightarrow>
          bind_err (size_at query 0) (\<lambda>s0.
          bind_err (size_at query 1) (\<lambda>s1.
          bind_err (reshape query [Some s0, Some s1, None, Some hn]) (\<lambda>query.
          Inr (query, key, value))))
      | _ \<Rightarrow> Inl (ValueError ''wrong number of values to unpack'')))"
  proof -
    from pos(4) have "ng \<noteq> 0" by simp
    then show ?thesis
      unfolding qkv_split_def Let_def ng np hn w_def r_def by (simp only: if_False)
  qed
  also have "\<dots> =
     Inr (\<lparr>shape = [sq, b, ng * r, hn],
           data = last_dim_piece (data mixed) (sq * b * ng) w 0 (r * hn)\<rparr>,
          \<lparr>shape = [sq, b, ng, hn],
           data = last_dim_piece (data mixed) (sq * b * ng) w (r * hn) hn\<rparr>,
          \<lparr>shape = [sq, b, ng, hn],
           data = last_dim_piece (data mixed) (sq * b * ng) w (r * hn + hn) hn\<rparr>)"
    by (simp only: v sp s0 s1 rs bind_err_Inr list.case)
  finally show ?thesis
    unfolding w_def r_def .
qed


lemma get_qkv_without_adapters:
  assumes lin: "linear_qkv self = Some l"
    and kind: "kind l \<noteq> OtherLinear"
    and noad: "is_adapter_available self \<longrightarrow>
        get_adapter_module self LORA_KQV_ADAPTER = None
        \<and> get_adapter_module self KEY_INFUSED = None
        \<and> get_adapter_module self VALUE_INFUSED = None"
  shows "get_query_key_value_tensors torch self hidden_states
           = qkv_split self (projection l hidden_states)"
proof -
  have lora: "qkv_lora torch self l hidden_states m ln = Inr m" for m ln
    using noad by (simp add: qkv_lora_def)
  have inf: "qkv_infused torch self qkv = Inr qkv" for qkv
    using noad by (cases qkv) (simp add: qkv_infused_def)
  have "bind_err r (qkv_infused torch self) = r" for r
    by (cases r) (simp_all add: inf)
  then show ?thesis
    using lin kind by (cases "kind l") (simp_all add: get_query_key_value_tensors_def
        qkv_projection_def lora)
qed

text \<open>
  Claim C4, as stated, fails when the number of query groups does not divide the number
  of attention heads. With \<open>ng = 2\<close>, \<open>np = 3\<close>, \<open>hn = 1\<close> and a \<open>mixed_qkv\<close> of shape
  \<open>[1, 1, 6]\<close> (the code's \<open>ng * (np // ng + 2) * hn\<close>), the query has shape
  \<open>[1, 1, 2, 1]\<close>, not \<open>[1, 1, np, hn]\<close>; with a \<open>mixed_qkv\<close> of shape \<open>[1, 1, 7]\<close> (the
  width with an exact quotient) the view fails.
\<close>

theorem qkv_shapes_counterexample:
  "get_query_key_value_tensors nat_torch (attention_without_adapters TEColumnParallelLinear 2 3 1)
     \<lparr>shape = [1, 1, 6], data = [0, 1, 2, 3, 4, 5]\<rparr>
   = Inr (\<lparr>shape = [1, 1, 2, 1], data = [0, 3]\<rparr>,
          \<lparr>shape = [1, 1, 2, 1], data = [1, 4]\<rparr>,
          \<lparr>shape = [1, 1, 2, 1], data = [2, 5]\<rparr>)
   \<and> [1, 1, 2, 1] \<noteq> [1, 1, 3, 1 :: nat]
   \<and> get_query_key_value_tensors nat_torch (attention_without_adapters TEColumnParallelLinear 2 3 1)
     \<lparr>shape = [1, 1, 7], data = [0, 1, 2, 3, 4, 5, 6]\<rparr> = Inl RuntimeError"
  by code_simp

text \<open>
  Claim C4, amended. Let \<open>linear_qkv\<close> be of a recognised class and produce a well-formed
  \<open>mixed_qkv\<close> of shape \<open>[sq, b, ng * (np div ng + 2) * hn]\<close> with \<open>sq\<close>, \<open>b\<close>, \<open>hn\<close>, \<open>ng\<close>
  positive, and let no LoRA or IA3 adapter module be registered. Then
  \<open>get_query_key_value_tensors\<close> returns \<open>(query, key, value)\<close> of shapes
  \<open>[sq, b, ng * (np div ng), hn]\<close>, which is \<open>[sq, b, np, hn]\<close> when \<open>ng\<close> divides \<open>np\<close>,
  \<open>[sq, b, ng, hn]\<close> and \<open>[sq, b, ng, hn]\<close>; of the \<open>(np div ng + 2) * hn\<close> entries of each
  query group, the first \<open>(np div ng) * hn\<close> are the query heads of the group, the next
  \<open>hn\<close> its key and the last \<open>hn\<close> its value.
\<close>

theorem qkv_shapes_and_split:
  assumes lin: "linear_qkv self = Some l"
    and kind: "kind l \<noteq> OtherLinear"
    and noad: "is_adapter_available self \<longrightarrow>
        get_adapter_module self LORA_KQV_ADAPTER = None
        \<and> get_adapter_module self KEY_INFUSED = None
        \<and> get_adapter_module self VALUE_INFUSED = None"
    and ng: "num_query_groups_per_partition self = ng"
    and np: "num_attention_heads_per_partition self = np"
    and hn: "hidden_size_per_attention_head self = hn"
    and sh: "shape (projection l hidden_states) = [sq, b, ng * (np div ng + 2) * hn]"
    and wf: "well_formed (projection l hidden_states)"
    and pos: "0 < sq" "0 < b" "0 < hn" "0 < ng"
  shows "\<exists>query key value.
      get_query_key_value_tensors torch self hidden_states = Inr (query, key, value)
    \<and> shape query = [sq, b, ng * (np div ng), hn]
    \<and> (ng dvd np \<longrightarrow> shape query = [sq, b, np, hn])
    \<and> shape key = [sq, b, ng, hn]
    \<and> shape value = [sq, b, ng, hn]
    \<and> (\<forall>s<sq. \<forall>i<b. \<forall>g<ng.
          (\<forall>j < np div ng * hn.
             element query [s, i, g * (np div ng) + j div hn, j mod hn]
               = element (projection l hidden_states) [s, i, g * ((np div ng + 2) * hn) + j])
        \<and> (\<forall>d<hn.
             element key [s, i, g, d]
               = element (projection l hidden_states)
                   [s, i, g * ((np div ng + 2) * hn) + np div ng * hn + d]
           \<and> element value [s, i, g, d]
               = element (projection l hidden_states)
                   [s, i, g * ((np div ng + 2) * hn) + np div ng * hn + hn + d]))"
proof -
  define mixed where "mixed = projection l hidden_states"
  define r where "r = np div ng"
  define w where "w = (r + 2) * hn"
  define m where "m = sq * b * ng"
  define query where "query = \<lparr>shape = [sq, b, ng * r, hn],
    data = last_dim_piece (data mixed) m w 0 (r * hn)\<rparr>"
  define key where "key = \<lparr>shape = [sq, b, ng, hn],
    data = last_dim_piece (data mixed) m w (r * hn) hn\<rparr>"
  define val where "val = \<lparr>shape = [sq, b, ng, hn],
    data = last_dim_piece (data mixed) m w (r * hn + hn) hn\<rparr>"
  have res: "get_query_key_value_tensors torch self hidden_states = Inr (query, key, val)"
    unfolding get_qkv_without_adapters [OF lin kind noad]
    using qkv_split_result [OF ng np hn sh pos]
    by (simp add: query_def key_def val_def mixed_def r_def w_def m_def)
  have width: "ng * (np div ng + 2) * hn = ng * w"
    by (simp add: w_def r_def algebra_simps)
  have shm: "shape mixed = [sq, b, ng * w]"
    using sh unfolding mixed_def width .
  have "length (data mixed) = prod_list (shape mixed)"
    using wf by (simp add: well_formed_def numel_def mixed_def)
  then have len: "length (data mixed) = m * w"
    by (simp add: shm m_def mult.assoc)
  have dvd: "shape query = [sq, b, np, hn]" if "ng dvd np"
    using that by (simp add: query_def r_def)
  have elems: "(\<forall>j < r * hn.
             element query [s, i, g * r + j div hn, j mod hn]
               = element mixed [s, i, g * w + j])
        \<and> (\<forall>d<hn.
             element key [s, i, g, d] = element mixed [s, i, g * w + r * hn + d]
           \<and> element val [s, i, g, d] = element mixed [s, i, g * w + r * hn + hn + d])"
    if s: "s < sq" and i: "i < b" and g: "g < ng" for s i g
  proof -
    define k where "k = (s * b + i) * ng + g"
    have "s * b + i < sq * b" using s i by (rule block_index_less)
    then have k: "k < m" unfolding k_def m_def using g by (rule block_index_less)
    have mix: "element mixed [s, i, g * w + c] = data mixed ! (k * w + c)" for c
      by (simp add: element_def shm flat_index3 k_def algebra_simps)
    have q: "element query [s, i, g * r + j div hn, j mod hn] = element mixed [s, i, g * w + j]"
      if j: "j < r * hn" for j
    proof -
      have "flat_index (shape query) [s, i, g * r + j div hn, j mod hn]
              = k * (r * hn) + (j div hn * hn + j mod hn)"
        by (simp add: query_def flat_index4 k_def algebra_simps)
      also have "\<dots> = k * (r * hn) + j" by simp
      finally have "element query [s, i, g * r + j div hn, j mod hn]
          = last_dim_piece (data mixed) m w 0 (r * hn) ! (k * (r * hn) + j)"
        by (simp add: element_def query_def)
      also have "\<dots> = data mixed ! (k * w + 0 + j)"
        using len _ k j by (rule nth_last_dim_piece) (simp add: w_def)
      finally show ?thesis by (simp add: mix)
    qed
    have kv: "element key [s, i, g, d] = element mixed [s, i, g * w + r * hn + d]
           \<and> element val [s, i, g, d] = element mixed [s, i, g * w + r * hn + hn + d]"
      if d: "d < hn" for d
    proof -
      have "element key [s, i, g, d] = last_dim_piece (data mixed) m w (r * hn) hn ! (k * hn + d)"
        by (simp add: element_def key_def flat_index4 k_def)
      also have "\<dots> = data mixed ! (k * w + r * hn + d)"
        using len _ k d by (rule nth_last_dim_piece) (simp add: w_def)
      finally have a: "element key [s, i, g, d] = element mixed [s, i, g * w + r * hn + d]"
        using mix [of "r * hn + d"] by (simp add: add.assoc)
      have "element val [s, i, g, d]
              = last_dim_piece (data mixed) m w (r * hn + hn) hn ! (k * hn + d)"
        by (simp add: element_def val_def flat_index4 k_def)
      also have "\<dots> = data mixed ! (k * w + (r * hn + hn) + d)"
        using len _ k d by (rule nth_last_dim_piece) (simp add: w_def)
      finally have "element val [s, i, g, d] = element mixed [s, i, g * w + r * hn + hn + d]"
        using mix [of "r * hn + hn + d"] by (simp add: add.assoc)
      with a show ?thesis by simp
    qed
    from q kv show ?thesis by blast
  qed
  have "shape query = [sq, b, ng * r, hn]" "shape key = [sq, b, ng, hn]"
    "shape val = [sq, b, ng, hn]"
    by (simp_all add: query_def key_def val_def)
  with res dvd elems show ?thesis
    unfolding mixed_def r_def w_def by blast
qed


theorem qkv_shapes_and_split_witness:
  "\<exists>query key value.
      get_query_key_value_tensors nat_torch
        (attention_without_adapters TEColumnParallelLinear 2 4 2)
        \<lparr>shape = [1, 1, 16], data = [0, 1, 2, 3, 4, 5, 6, 7, 8, 9, 10, 11, 12, 13, 14, 15]\<rparr>
        = Inr (query, key, value)
    \<and> shape query = [1, 1, 4, 2] \<and> shape key = [1, 1, 2, 2] \<and> shape value = [1, 1, 2, 2]
    \<and> element query [0, 0, 2, 1] = 9 \<and> element key [0, 0, 1, 0] = 12
    \<and> element value [0, 0, 1, 1] = 15"
proof -
  let ?self = "attention_without_adapters TEColumnParallelLinear 2 4 2"
  let ?l = "identity_linear TEColumnParallelLinear True"
  let ?hs = "\<lparr>shape = [1, 1, 16],
              data = [0, 1, 2, 3, 4, 5, 6, 7, 8, 9, 10, 11, 12, 13, 14, 15 :: nat]\<rparr>"
  have lin: "linear_qkv ?self = Some ?l"
    by (simp add: attention_without_adapters_def)
  have kind: "kind ?l \<noteq> OtherLinear"
    by (simp add: identity_linear_def)
  have noad: "is_adapter_available ?self \<longrightarrow>
        get_adapter_module ?self LORA_KQV_ADAPTER = None
        \<and> get_adapter_module ?self KEY_INFUSED = None
        \<and> get_adapter_module ?self VALUE_INFUSED = None"
    by (simp add: attention_without_adapters_def)
  have ng: "num_query_groups_per_partition ?self = 2"
    and np: "num_attention_heads_per_partition ?self = 4"
    and hn: "hidden_size_per_attention_head ?self = 2"
    by (simp_all add: attention_without_adapters_def)
  have sh: "shape (projection ?l ?hs) = [1, 1, 2 * (4 div 2 + 2) * 2]"
    by (simp add: identity_linear_def)
  have wf: "well_formed (projection ?l ?hs)"
    by (simp add: identity_linear_def well_formed_def numel_def)
  note el = identity_linear_def element_def flat_index_def
  from qkv_shapes_and_split [OF lin kind noad ng np hn sh wf, of nat_torch]
  obtain query key val where
    res: "get_query_key_value_tensors nat_torch ?self ?hs = Inr (query, key, val)"
    and shapes: "shape query = [1, 1, 2 * (4 div 2), 2]" "shape key = [1, 1, 2, 2]"
      "shape val = [1, 1, 2, 2]"
    and elems: "\<And>s i g. s < 1 \<Longrightarrow> i < 1 \<Longrightarrow> g < 2 \<Longrightarrow>
          (\<forall>j < 4 div 2 * 2.
             element query [s, i, g * (4 div 2) + j div 2, j mod 2]
               = element (projection ?l ?hs) [s, i, g * ((4 div 2 + 2) * 2) + j])
        \<and> (\<forall>d<2.
             element key [s, i, g, d]
               = element (projection ?l ?hs) [s, i, g * ((4 div 2 + 2) * 2) + 4 div 2 * 2 + d]
           \<and> element val [s, i, g, d]
               = element (projection ?l ?hs)
                   [s, i, g * ((4 div 2 + 2) * 2) + 4 div 2 * 2 + 2 + d])"
    by auto
  have g: "(0::nat) < 1" "(1::nat) < 2" by simp_all
  note at_group = elems [OF g(1) g(1) g(2)]
  have "element query [0, 0, 2, 1] = 9"
    using at_group [THEN conjunct1, rule_format, of 1] by (simp add: el)
  moreover have "element key [0, 0, 1, 0] = 12"
    using at_group [THEN conjunct2, rule_format, of 0] by (simp add: el)
  moreover have "element val [0, 0, 1, 1] = 15"
    using at_group [THEN conjunct2, rule_format, of 1] by (simp add: el)
  ultimately have "element query [0, 0, 2, 1] = 9" "element key [0, 0, 1, 0] = 12"
    "element val [0, 0, 1, 1] = 15"
    by simp_all
  with res shapes show ?thesis by simp
qed

text \<open>
  Claim C9. On a module with a \<open>linear_qkv\<close> submodule, \<open>get_query_key_value_tensors\<close>
  raises a \<open>ValueError\<close> if and only if \<open>linear_qkv\<close> is neither a
  \<open>TELayerNormColumnParallelLinear\<close> nor a \<open>TEColumnParallelLinear\<close>; for the two
  recognised classes neither the projection branch nor the LoRA branch nor any later
  statement raises one.
\<close>

theorem qkv_ValueError_iff:
  assumes "linear_qkv self = Some l"
  shows "(\<exists>msg. get_query_key_value_tensors torch self hidden_states = Inl (ValueError msg))
         \<longleftrightarrow> kind l = OtherLinear"
proof
  assume "\<exists>msg. get_query_key_value_tensors torch self hidden_states = Inl (ValueError msg)"
  then obtain msg where
    e: "get_query_key_value_tensors torch self hidden_states = Inl (ValueError msg)" ..
  show "kind l = OtherLinear"
  proof (cases "qkv_projection l hidden_states")
    case (Inl err)
    with e assms have "err = ValueError msg"
      by (simp add: get_query_key_value_tensors_def)
    with Inl show ?thesis
      using qkv_projection_ValueError_iff [of l hidden_states] by auto
  next
    case (Inr r)
    obtain mixed ln where r: "r = (mixed, ln)" by (cases r)
    show ?thesis
    proof (cases "qkv_lora torch self l hidden_states mixed ln")
      case (Inl err)
      with e assms Inr r have "err = ValueError msg"
        by (simp add: get_query_key_value_tensors_def)
      with Inl show ?thesis by (auto dest: qkv_lora_ValueError)
    next
      case lora: (Inr mixed')
      with e assms Inr r
      have "bind_err (qkv_split self mixed') (qkv_infused torch self) = Inl (ValueError msg)"
        by (simp add: get_query_key_value_tensors_def)
      then show ?thesis
        by (auto simp: bind_err_Inl_iff qkv_split_not_ValueError qkv_infused_not_ValueError)
    qed
  qed
next
  assume "kind l = OtherLinear"
  with assms
  show "\<exists>msg. get_query_key_value_tensors torch self hidden_states = Inl (ValueError msg)"
    by (simp add: get_query_key_value_tensors_def qkv_projection_def)
qed

theorem qkv_ValueError_iff_witness:
  "linear_qkv (attention_without_adapters OtherLinear 1 1 1)
     = Some (identity_linear OtherLinear True)
   \<and> (\<exists>msg. get_query_key_value_tensors nat_torch (attention_without_adapters OtherLinear 1 1 1)
               \<lparr>shape = [1, 1, 3], data = [0, 1, 2]\<rparr> = Inl (ValueError msg))"
proof -
  have h: "linear_qkv (attention_without_adapters OtherLinear 1 1 1)
     = Some (identity_linear OtherLinear True)"
    by (simp add: attention_without_adapters_def)
  have "kind (identity_linear OtherLinear True) = OtherLinear"
    by (simp add: identity_linear_def)
  with qkv_ValueError_iff [OF h, of nat_torch "\<lparr>shape = [1, 1, 3], data = [0, 1, 2]\<rparr>"] h
  show ?thesis by simp
qed

section \<open>Properties of the embedding mixin\<close>

lemma embedding_forward_without_adapters:
  "\<not> is_adapter_available self \<Longrightarrow>
   MCoreGPTEmbeddingMixin_forward base_forward self input_ids position_ids
     = Inr (base_forward input_ids position_ids)"
  by (simp add: MCoreGPTEmbeddingMixin_forward_def)

text \<open>
  Claim C1 says that a mixin on which every \<open>get_adapter_module\<close> call returns \<open>None\<close>
  computes what the base class computes. \<open>MCoreGPTEmbeddingMixin.forward\<close> does not:
  when \<open>is_adapter_available()\<close> is true and \<open>get_adapter_module\<close> returns \<open>None\<close> for
  every name, the base \<open>forward\<close> returns its tensor, and the mixin raises an
  \<open>AttributeError\<close>, because it reads \<open>ptuning_adapter.virtual_tokens\<close> before it tests
  \<open>ptuning_adapter\<close>.
\<close>

theorem embedding_forward_adapter_none:
  "is_adapter_available embedding_with_unnamed_adapter
   \<and> (\<forall>name. get_adapter_module embedding_with_unnamed_adapter name = None)
   \<and> MCoreGPTEmbeddingMixin_forward (constant_embedding [4, 2, 3])
        embedding_with_unnamed_adapter () () = Inl AttributeError"
  by (simp add: MCoreGPTEmbeddingMixin_forward_def constant_embedding_def
      embedding_with_unnamed_adapter_def)

text \<open>
  Claim C10. Let the base \<open>forward\<close> return a tensor of shape \<open>[sq, bs, hs]\<close>, and let,
  whenever \<open>is_adapter_available()\<close> is true, the \<open>PTUNING_ADAPTER\<close> module be present
  and return \<open>virtual_tokens\<close> rows of shape \<open>[bs, hs]\<close>. Then
  \<open>MCoreGPTEmbeddingMixin.forward\<close> returns a tensor of the shape of the base output,
  whether the adapter fires or not.
\<close>

theorem embedding_forward_shape:
  assumes base: "shape (base_forward input_ids position_ids) = [sq, bs, hs]"
    and present: "is_adapter_available self \<longrightarrow>
       (\<exists>pa n. get_adapter_module self PTUNING_ADAPTER = Some pa
          \<and> shape (encode pa bs) = [n, bs, hs] \<and> int n = virtual_tokens pa)"
  shows "\<exists>out. MCoreGPTEmbeddingMixin_forward base_forward self input_ids position_ids = Inr out
           \<and> shape out = shape (base_forward input_ids position_ids)"
proof (cases "is_adapter_available self")
  case False
  then show ?thesis by (simp add: MCoreGPTEmbeddingMixin_forward_def)
next
  case True
  with present obtain pa n where pa: "get_adapter_module self PTUNING_ADAPTER = Some pa"
    and enc: "shape (encode pa bs) = [n, bs, hs]" and n: "int n = virtual_tokens pa"
    by blast
  show ?thesis
  proof (cases "int sq \<ge> virtual_tokens pa")
    case False
    with True pa base show ?thesis
      by (simp add: MCoreGPTEmbeddingMixin_forward_def)
  next
    case fires: True
    with n have le: "n \<le> sq" by simp
    from n have v: "nat (virtual_tokens pa) = n" "\<not> virtual_tokens pa < 0" by auto
    have sl: "slice_from (base_forward input_ids position_ids) (virtual_tokens pa)
      = Inr \<lparr>shape = [sq - n, bs, hs],
             data = drop (n * (bs * hs)) (data (base_forward input_ids position_ids))\<rparr>"
      using base v le by (simp add: slice_from_def min_def)
    show ?thesis
      using True pa base fires enc le
      by (simp add: MCoreGPTEmbeddingMixin_forward_def sl concat_dim0_def)
  qed
qed

theorem embedding_forward_shape_witness:
  "\<exists>out. MCoreGPTEmbeddingMixin_forward (constant_embedding [4, 2, 3])
            (embedding_with_ptuning 3 3) () () = Inr out
         \<and> shape out = shape (constant_embedding [4, 2, 3] () ())"
proof -
  have base: "shape (constant_embedding [4, 2, 3] () ()) = [4, 2, 3]"
    by (simp add: constant_embedding_def)
  have present: "is_adapter_available (embedding_with_ptuning 3 3) \<longrightarrow>
       (\<exists>pa n. get_adapter_module (embedding_with_ptuning 3 3) PTUNING_ADAPTER = Some pa
          \<and> shape (encode pa 2) = [n, 2, 3] \<and> int n = virtual_tokens pa)"
    by (simp add: embedding_with_ptuning_def)
  from embedding_forward_shape
         [where base_forward = "constant_embedding [4, 2, 3]" and input_ids = "()"
            and position_ids = "()" and self = "embedding_with_ptuning 3 3", OF base present]
  show ?thesis .
qed

section \<open>Properties of the Griffin model\<close>

lemma forward_preserves:
  "pre_process (snd (forward fw s a b c d)) = pre_process s
   \<and> post_process (snd (forward fw s a b c d)) = post_process s
   \<and> share_embeddings_and_output_weights (snd (forward fw s a b c d))
       = share_embeddings_and_output_weights s
   \<and> embedding (snd (forward fw s a b c d)) = embedding s"
  by (simp add: forward_def Let_def split: option.split sum.split)

lemma after_call_preserves:
  "pre_process (after_call fw s c) = pre_process s
   \<and> post_process (after_call fw s c) = post_process s
   \<and> share_embeddings_and_output_weights (after_call fw s c)
       = share_embeddings_and_output_weights s
   \<and> embedding (after_call fw s c) = embedding s"
  by (cases c) (simp_all add: forward_preserves set_input_tensor_def)

lemma after_calls_preserves:
  "pre_process (after_calls fw s calls) = pre_process s
   \<and> post_process (after_calls fw s calls) = post_process s
   \<and> share_embeddings_and_output_weights (after_calls fw s calls)
       = share_embeddings_and_output_weights s
   \<and> embedding (after_calls fw s calls) = embedding s"
  unfolding after_calls_def
  by (induction calls arbitrary: s) (simp_all add: after_call_preserves)

text \<open>
  Claim C8. For every combination of constructor arguments and after every sequence of
  calls of the methods of \<open>GriffinModel\<close> (the empty one included), \<open>post_process\<close> is
  false, \<open>share_embeddings_and_output_weights\<close> is true and \<open>pre_process\<close> is the
  constructor's argument; hence \<open>shared_embedding_or_output_weight()\<close> returns the weight
  of the word embedding built by the constructor when \<open>pre_process\<close> is true and \<open>None\<close>
  when it is false, and never reads \<open>output_layer\<close>.
\<close>

theorem griffin_flags_invariant:
  "(let self = after_calls fw
                 (GriffinModel_init fw cfg vocab cap pos_type max_sequence_length
                    rotary_percent rotary_base pre) calls
    in post_process self = False
     \<and> share_embeddings_and_output_weights self = True
     \<and> pre_process self = pre
     \<and> shared_embedding_or_output_weight fw self
         = (if pre
            then Inr (Some (word_embeddings_weight fw
                              (LanguageModelEmbedding_init fw cfg vocab max_sequence_length)))
            else Inr None))"
  by (simp add: Let_def after_calls_preserves shared_embedding_or_output_weight_def
      GriffinModel_init_def)

end
